theory Spec2Isabelle
  imports Complex_Main
begin

text \<open>
  A shallow embedding of the hedge manager of \<^verbatim>\<open>paradex_hedger\<close> (\<^verbatim>\<open>hedger.py\<close>,
  \<^verbatim>\<open>utils.py\<close>, \<^verbatim>\<open>exceptions.py\<close>): the sizing computation, the common-size search and
  the two-leg order placement with its compensation, followed by the properties of the
  specification that concern them.
\<close>

section \<open>Values exchanged with the venues\<close>

text \<open>
  Venue responses are JSON documents. Only the shapes the hedger inspects are modelled:
  null, strings and objects (dictionaries, as association lists in key order).
\<close>

datatype json = JNull | JStr string | JObj "(string \<times> json) list"

text \<open>Python truthiness, as used by \<^verbatim>\<open>if cancel_reason:\<close>.\<close>

fun truthy :: "json \<Rightarrow> bool" where
  "truthy JNull = False"
| "truthy (JStr s) = (s \<noteq> [])"
| "truthy (JObj kvs) = (kvs \<noteq> [])"

section \<open>Exceptions\<close>

text \<open>
  The classes of \<^verbatim>\<open>exceptions.py\<close> and of the two \<^verbatim>\<open>exchanges/*/exceptions.py\<close>,
  together with the built-in exceptions the modelled code can raise. \<open>Exception\<close> stands
  for any other exception class.
\<close>

datatype exn_class =
    Exception | ValueError | KeyError | TypeError | AttributeError
  | InvalidOperation | DivisionByZero
  | ParadexAPIError | BitgetAPIError
  | ExchangeError | InsufficientFundsError
  | OrderSizeError | OrderSizeTooSmallError | OrderSizeTooLargeError
  | OrderCancelledError
  | HedgeError | ParadexError | BitgetError | HedgePositionMismatchError

text \<open>A class followed by its base classes, as the \<^verbatim>\<open>class X(Y)\<close> headers give them.\<close>

fun bases :: "exn_class \<Rightarrow> exn_class list" where
  "bases Exception = [Exception]"
| "bases ExchangeError = [ExchangeError, Exception]"
| "bases InsufficientFundsError = [InsufficientFundsError, ExchangeError, Exception]"
| "bases OrderSizeError = [OrderSizeError, ExchangeError, Exception]"
| "bases OrderSizeTooSmallError =
     [OrderSizeTooSmallError, OrderSizeError, ExchangeError, Exception]"
| "bases OrderSizeTooLargeError =
     [OrderSizeTooLargeError, OrderSizeError, ExchangeError, Exception]"
| "bases OrderCancelledError = [OrderCancelledError, ExchangeError, Exception]"
| "bases HedgeError = [HedgeError, ExchangeError, Exception]"
| "bases ParadexError = [ParadexError, HedgeError, ExchangeError, Exception]"
| "bases BitgetError = [BitgetError, HedgeError, ExchangeError, Exception]"
| "bases HedgePositionMismatchError =
     [HedgePositionMismatchError, HedgeError, ExchangeError, Exception]"
| "bases c = [c, Exception]"

text \<open>
  An exception message is kept symbolically: literal text, an embedded JSON value or an
  embedded decimal, in the order an f-string concatenates them.
\<close>

datatype frag = Lit string | Val json | Num rat

datatype exn = Exn (cls: exn_class) (message: "frag list")

definition isinstance :: "exn \<Rightarrow> exn_class \<Rightarrow> bool" where
  "isinstance e c = (c \<in> set (bases (cls e)))"

section \<open>Decimal arithmetic\<close>

text \<open>
  \<^verbatim>\<open>decimal.Decimal\<close> values are modelled as exact rationals: the rounding of the default
  28-digit context, infinities and NaN are outside the model. Division, floor division
  and remainder by zero raise, as the default context traps them.
\<close>

definition trunc :: "rat \<Rightarrow> int" where
  "trunc q = (if 0 \<le> q then \<lfloor>q\<rfloor> else \<lceil>q\<rceil>)"

definition round_up :: "rat \<Rightarrow> int" where
  "round_up q = (if 0 \<le> q then \<lceil>q\<rceil> else \<lfloor>q\<rfloor>)"

definition zero_divisor :: "rat \<Rightarrow> exn" where
  "zero_divisor x = Exn (if x = 0 then InvalidOperation else DivisionByZero) []"

definition decimal_truediv :: "rat \<Rightarrow> rat \<Rightarrow> exn + rat" where
  "decimal_truediv x y = (if y = 0 then Inl (zero_divisor x) else Inr (x / y))"

definition decimal_floordiv :: "rat \<Rightarrow> rat \<Rightarrow> exn + rat" where
  "decimal_floordiv x y =
     (if y = 0 then Inl (zero_divisor x) else Inr (of_int (trunc (x / y))))"

definition decimal_mod :: "rat \<Rightarrow> rat \<Rightarrow> exn + rat" where
  "decimal_mod x y =
     (if y = 0 then Inl (Exn InvalidOperation [])
      else Inr (x - y * of_int (trunc (x / y))))"

text \<open>\<^verbatim>\<open>Decimal(0.95)\<close> and \<^verbatim>\<open>Decimal(1.05)\<close> convert the binary floats exactly.\<close>

definition Decimal_0_95 :: rat where
  "Decimal_0_95 = 4278419646001971 / 4503599627370496"

definition Decimal_1_05 :: rat where
  "Decimal_1_05 = 4728779608739021 / 4503599627370496"

definition bind_exn :: "exn + 'a \<Rightarrow> ('a \<Rightarrow> exn + 'b) \<Rightarrow> exn + 'b" where
  "bind_exn m f = (case m of Inl e \<Rightarrow> Inl e | Inr x \<Rightarrow> f x)"

section \<open>Sizing (\<^verbatim>\<open>hedger.py\<close>, \<^verbatim>\<open>utils.py\<close>)\<close>

definition calculate_min_paradex_size :: "rat \<Rightarrow> rat \<Rightarrow> rat \<Rightarrow> exn + rat" where
  "calculate_min_paradex_size min_notional price increment =
     bind_exn (decimal_truediv min_notional price) (\<lambda>q.
       let min_size_from_notional = q * Decimal_1_05
       in bind_exn (decimal_truediv min_size_from_notional increment) (\<lambda>n.
            Inr (of_int (round_up n) * increment)))"

definition calculate_max_bitget_size :: "rat \<Rightarrow> rat \<Rightarrow> rat \<Rightarrow> exn + rat" where
  "calculate_max_bitget_size position_limit open_interest multiplier =
     bind_exn (decimal_floordiv (position_limit * open_interest * (95 / 100)) multiplier)
       (\<lambda>n. Inr (n * multiplier))"

definition validate_size_constraints :: "rat \<Rightarrow> rat \<Rightarrow> rat \<Rightarrow> rat \<Rightarrow> exn + unit" where
  "validate_size_constraints min_paradex_size max_paradex_size min_bitget_size max_bitget_size =
     (if max_paradex_size < min_paradex_size then
        Inl (Exn ValueError
               [Lit ''Paradex max order size ('', Num max_paradex_size,
                Lit '') is less than min order size ('', Num min_paradex_size, Lit '')''])
      else if max_bitget_size < min_bitget_size then
        Inl (Exn ValueError
               [Lit ''Bitget max order size ('', Num max_bitget_size,
                Lit '') is less than min order size ('', Num min_bitget_size, Lit '')''])
      else Inr ())"

text \<open>
  \<^verbatim>\<open>calculate_position_value\<close> of \<^verbatim>\<open>utils.py\<close>. The two-element sequence of limits is
  a pair. The draw \<^verbatim>\<open>Decimal(str(random.uniform(float(lo), float(hi))))\<close> is the
  parameter \<open>uniform\<close>: the random source is injected, and the float conversions
  belong to it.
\<close>

definition calculate_position_value ::
  "(rat \<Rightarrow> rat \<Rightarrow> rat) \<Rightarrow> rat \<Rightarrow> rat \<times> rat \<Rightarrow> rat \<Rightarrow> rat option" where
  "calculate_position_value uniform min_trade_amount position_usd_limits available_balance =
     (let min_limit = fst position_usd_limits;
          max_limit = snd position_usd_limits;
          min_position = max min_trade_amount min_limit;
          max_position = min max_limit available_balance
      in if min_position > max_position then None
         else Some (uniform min_position max_position))"

definition POSITION_USD_LIMITS :: "rat \<times> rat" where
  "POSITION_USD_LIMITS = (50, 1000)"

text \<open>
  Lines 168--176 of \<^verbatim>\<open>execute_hedge_strategy\<close>: the position value, or
  \<^verbatim>\<open>InsufficientFundsError\<close> when \<^verbatim>\<open>calculate_position_value\<close> returns \<^verbatim>\<open>None\<close>.
\<close>

definition select_position_value ::
  "(rat \<Rightarrow> rat \<Rightarrow> rat) \<Rightarrow> rat \<times> rat \<Rightarrow> rat \<Rightarrow> rat \<Rightarrow> rat \<Rightarrow> rat \<Rightarrow> exn + rat" where
  "select_position_value uniform position_usd_limits min_notional_paradex min_notional_bitget
       paradex_balance bitget_balance =
     (let min_available_balance = min paradex_balance bitget_balance;
          min_trade_amount = max min_notional_paradex min_notional_bitget
      in case calculate_position_value uniform min_trade_amount position_usd_limits
                min_available_balance of
           None \<Rightarrow>
             Inl (Exn InsufficientFundsError [Lit ''Insufficient funds on one of the exchanges''])
         | Some position_value \<Rightarrow> Inr position_value)"

text \<open>The expression \<^verbatim>\<open>(amount / price) // increment * increment\<close>.\<close>

definition floor_to_increment :: "rat \<Rightarrow> rat \<Rightarrow> rat \<Rightarrow> exn + rat" where
  "floor_to_increment amount price increment =
     bind_exn (decimal_truediv amount price) (\<lambda>q.
       bind_exn (decimal_floordiv q increment) (\<lambda>n. Inr (n * increment)))"

text \<open>
  The loop test \<^verbatim>\<open>(current_size % paradex_increment == 0) and
  (current_size % bitget_multiplier == 0)\<close>, with Python's short-circuit \<^verbatim>\<open>and\<close>.
\<close>

definition is_common_multiple :: "rat \<Rightarrow> rat \<Rightarrow> rat \<Rightarrow> exn + bool" where
  "is_common_multiple current_size paradex_increment bitget_multiplier =
     (case decimal_mod current_size paradex_increment of
        Inl e \<Rightarrow> Inl e
      | Inr r1 \<Rightarrow>
          if r1 = 0 then
            (case decimal_mod current_size bitget_multiplier of
               Inl e \<Rightarrow> Inl e
             | Inr r2 \<Rightarrow> Inr (r2 = 0))
          else Inr False)"

text \<open>
  The two \<^verbatim>\<open>while\<close> loops of \<^verbatim>\<open>_find_common_size\<close>. A loop that does not return is
  the value \<open>None\<close>; a loop that ends yields \<open>Inl e\<close> when a remainder raised,
  \<open>Inr (Some v)\<close> when the function returned \<open>v\<close> from inside the loop, and
  \<open>Inr None\<close> when the loop condition became false.
\<close>

partial_function (option) scan_up ::
  "rat \<Rightarrow> rat \<Rightarrow> rat \<Rightarrow> rat \<Rightarrow> rat \<Rightarrow> rat \<Rightarrow> (exn + rat option) option" where
  "scan_up paradex_increment bitget_multiplier increment_step target_size upper_limit current_size =
     (if current_size \<le> upper_limit then
        (case is_common_multiple current_size paradex_increment bitget_multiplier of
           Inl e \<Rightarrow> Some (Inl e)
         | Inr hit \<Rightarrow>
             if hit \<and> current_size \<ge> target_size then Some (Inr (Some current_size))
             else scan_up paradex_increment bitget_multiplier increment_step target_size
                    upper_limit (current_size + increment_step))
      else Some (Inr None))"

partial_function (option) scan_down ::
  "rat \<Rightarrow> rat \<Rightarrow> rat \<Rightarrow> rat \<Rightarrow> rat \<Rightarrow> (exn + rat option) option" where
  "scan_down paradex_increment bitget_multiplier increment_step min_size current_size =
     (if current_size \<ge> min_size then
        (case is_common_multiple current_size paradex_increment bitget_multiplier of
           Inl e \<Rightarrow> Some (Inl e)
         | Inr hit \<Rightarrow>
             if hit then Some (Inr (Some current_size))
             else scan_down paradex_increment bitget_multiplier increment_step min_size
                    (current_size - increment_step))
      else Some (Inr None))"

declare scan_up.simps [code]
declare scan_down.simps [code]

definition find_common_size ::
  "rat \<Rightarrow> rat \<Rightarrow> rat \<Rightarrow> rat \<Rightarrow> rat \<Rightarrow> rat \<Rightarrow> rat \<Rightarrow> rat \<Rightarrow> (exn + rat option) option" where
  "find_common_size paradex_size bitget_size paradex_increment bitget_multiplier
      min_paradex_size min_bitget_size max_affordable_paradex_size max_affordable_bitget_size =
     (let upper_limit = min max_affordable_paradex_size max_affordable_bitget_size;
          min_size = max min_paradex_size min_bitget_size;
          increment_step = min paradex_increment bitget_multiplier;
          target_size = max paradex_size bitget_size
      in case scan_up paradex_increment bitget_multiplier increment_step target_size
                upper_limit min_size of
           None \<Rightarrow> None
         | Some (Inl e) \<Rightarrow> Some (Inl e)
         | Some (Inr (Some v)) \<Rightarrow> Some (Inr (Some v))
         | Some (Inr None) \<Rightarrow>
             scan_down paradex_increment bitget_multiplier increment_step min_size upper_limit)"

text \<open>
  Lines 209--217 of \<^verbatim>\<open>execute_hedge_strategy\<close>. The test \<^verbatim>\<open>if common_size:\<close> is
  Python truthiness: it fails for \<^verbatim>\<open>None\<close> and for a zero decimal.
\<close>

definition final_sizes ::
  "rat option \<Rightarrow> rat \<Rightarrow> rat \<Rightarrow> rat \<Rightarrow> rat \<Rightarrow> rat \<Rightarrow> rat \<Rightarrow> rat \<times> rat" where
  "final_sizes common_size paradex_size bitget_size max_paradex_size max_bitget_size
       max_affordable_paradex_size max_affordable_bitget_size =
     (let independent =
            (min paradex_size (min max_paradex_size max_affordable_paradex_size),
             min bitget_size (min max_bitget_size max_affordable_bitget_size))
      in case common_size of
           None \<Rightarrow> independent
         | Some c \<Rightarrow> if c \<noteq> 0 then (c, c) else independent)"

definition validate_final_sizes ::
  "rat \<Rightarrow> rat \<Rightarrow> rat \<Rightarrow> rat \<Rightarrow> rat \<Rightarrow> rat \<Rightarrow> rat \<Rightarrow> rat \<Rightarrow> exn + unit" where
  "validate_final_sizes paradex_size bitget_size min_paradex_size min_bitget_size
       paradex_price bitget_price paradex_balance bitget_balance =
     (if paradex_size < min_paradex_size then
        Inl (Exn ValueError
               [Lit ''Calculated Paradex size ('', Num paradex_size,
                Lit '') is less than minimum ('', Num min_paradex_size, Lit '')''])
      else if bitget_size < min_bitget_size then
        Inl (Exn ValueError
               [Lit ''Calculated Bitget size ('', Num bitget_size,
                Lit '') is less than minimum ('', Num min_bitget_size, Lit '')''])
      else
        let paradex_cost = paradex_size * paradex_price;
            bitget_cost = bitget_size * bitget_price
        in if paradex_cost > paradex_balance \<or> bitget_cost > bitget_balance then
             Inl (Exn InsufficientFundsError
                    [Lit ''Calculated size exceeds available balance. '',
                     Lit ''Paradex: cost '', Num paradex_cost, Lit '' > balance '',
                     Num paradex_balance, Lit '', '',
                     Lit ''Bitget: cost '', Num bitget_cost, Lit '' > balance '',
                     Num bitget_balance])
           else Inr ())"

section \<open>The venue gateways\<close>

datatype order_side = Buy | Sell

datatype order_type = Market | Limit

text \<open>The fields of \<^verbatim>\<open>Order\<close> (\<^verbatim>\<open>exchanges/paradex/types.py\<close>) that the hedger sets.\<close>

record order =
  ord_market :: string
  ord_type :: order_type
  ord_side :: order_side
  ord_size :: rat
  ord_signature_timestamp :: int
  ord_flags :: "string list"
  ord_signature :: string

text \<open>
  The gateway calls \<^verbatim>\<open>place_orders\<close> can issue: \<^verbatim>\<open>ParadexAPI.place_order\<close>,
  \<^verbatim>\<open>ParadexAPI.get_order\<close>, \<^verbatim>\<open>ParadexAPI.cancel_order\<close> and
  \<^verbatim>\<open>BitgetAPI.place_order\<close> (symbol, size, side).
\<close>

datatype call =
    ParadexPlaceOrder order
  | ParadexGetOrder json
  | ParadexCancelOrder json
  | BitgetPlaceOrder string rat string

text \<open>The log of the calls issued so far, each with what the venue answered or raised.\<close>

type_synonym history = "(call \<times> (exn + json)) list"

text \<open>
  The outside world of one attempt. \<open>respond\<close> answers a gateway call, given the log so
  far, with a response or an exception; \<open>config_ready\<close> says whether
  \<^verbatim>\<open>ParadexAPI.config\<close> is non-empty; \<open>signer\<close> is the signature computed by
  \<^verbatim>\<open>account.sign_message\<close> (not part of the sources at hand, hence a parameter);
  \<open>clock\<close> is \<^verbatim>\<open>int(time.time())\<close>.
\<close>

record venues =
  config_ready :: bool
  signer :: "order \<Rightarrow> string \<Rightarrow> string \<Rightarrow> string"
  clock :: "history \<Rightarrow> int"
  respond :: "history \<Rightarrow> call \<Rightarrow> exn + json"

definition api_call :: "venues \<Rightarrow> call \<Rightarrow> history \<Rightarrow> (exn + json) \<times> history" where
  "api_call v c h = (let r = respond v h c in (r, h @ [(c, r)]))"

text \<open>\<^verbatim>\<open>d[k]\<close> and \<^verbatim>\<open>d.get(k, default)\<close> on a response.\<close>

fun subscript :: "json \<Rightarrow> string \<Rightarrow> exn + json" where
  "subscript (JObj kvs) k =
     (case map_of kvs k of None \<Rightarrow> Inl (Exn KeyError [Val (JStr k)]) | Some x \<Rightarrow> Inr x)"
| "subscript other k = Inl (Exn TypeError [])"

fun dict_get :: "json \<Rightarrow> string \<Rightarrow> json \<Rightarrow> exn + json" where
  "dict_get (JObj kvs) k dflt = Inr (case map_of kvs k of None \<Rightarrow> dflt | Some x \<Rightarrow> x)"
| "dict_get other k dflt = Inl (Exn AttributeError [])"

text \<open>\<^verbatim>\<open>ParadexAPI.sign_order\<close>.\<close>

definition sign_order :: "venues \<Rightarrow> order \<Rightarrow> string \<Rightarrow> string \<Rightarrow> exn + string" where
  "sign_order v order paradex_address paradex_private_key =
     (if \<not> config_ready v then
        Inl (Exn ParadexAPIError [Lit ''Config not initialized. Call get_config() first''])
      else Inr (signer v order paradex_address paradex_private_key))"

section \<open>Order placement (\<^verbatim>\<open>hedger.py\<close>)\<close>

definition place_paradex_order ::
  "venues \<Rightarrow> order_side \<Rightarrow> rat \<Rightarrow> string \<Rightarrow> string \<Rightarrow> bool \<Rightarrow> history
     \<Rightarrow> (exn + json) \<times> history" where
  "place_paradex_order v side sz paradex_account_address paradex_account_private_key_hex
       reduce_only h =
     (let order = \<lparr>ord_market = ''ETH-USD-PERP'', ord_type = Market, ord_side = side,
                    ord_size = sz, ord_signature_timestamp = clock v h * 1000,
                    ord_flags = (if reduce_only then [''REDUCE_ONLY''] else []),
                    ord_signature = ''''\<rparr>
      in case sign_order v order paradex_account_address paradex_account_private_key_hex of
           Inl e \<Rightarrow> (Inl e, h)
         | Inr sg \<Rightarrow>
             (case api_call v (ParadexPlaceOrder (order\<lparr>ord_signature := sg\<rparr>)) h of
                (Inl e, h1) \<Rightarrow> (Inl e, h1)
              | (Inr order_response, h1) \<Rightarrow>
                  (case subscript order_response ''id'' of
                     Inl e \<Rightarrow> (Inl e, h1)
                   | Inr order_id \<Rightarrow>
                       (case api_call v (ParadexGetOrder order_id) h1 of
                          (Inl e, h2) \<Rightarrow> (Inl e, h2)
                        | (Inr created_order, h2) \<Rightarrow>
                            (case dict_get created_order ''cancel_reason'' JNull of
                               Inl e \<Rightarrow> (Inl e, h2)
                             | Inr cancel_reason \<Rightarrow>
                                 if truthy cancel_reason then
                                   (Inl (Exn OrderCancelledError [Val cancel_reason]), h2)
                                 else (Inr order_id, h2))))))"

definition place_bitget_order ::
  "venues \<Rightarrow> string \<Rightarrow> rat \<Rightarrow> history \<Rightarrow> (exn + json) \<times> history" where
  "place_bitget_order v side sz h =
     (case api_call v (BitgetPlaceOrder ''ETHPERP'' sz side) h of
        (Inl e, h1) \<Rightarrow> (Inl e, h1)
      | (Inr order_response, h1) \<Rightarrow>
          (case subscript order_response ''msg'' of
             Inl e \<Rightarrow> (Inl e, h1)
           | Inr msg \<Rightarrow>
               if msg \<noteq> JStr ''success'' then
                 (Inl (Exn OrderCancelledError [Lit ''Order was cancelled'']), h1)
               else
                 (case subscript order_response ''data'' of
                    Inl e \<Rightarrow> (Inl e, h1)
                  | Inr d \<Rightarrow>
                      (case subscript d ''orderId'' of
                         Inl e \<Rightarrow> (Inl e, h1)
                       | Inr order_id \<Rightarrow> (Inr order_id, h1)))))"

text \<open>
  The block that both inner handlers of \<^verbatim>\<open>place_orders\<close> run before re-raising
  (lines 377--392 and 397--412, the same text twice): cancel the leg-A order and, when
  the venue answers \<^verbatim>\<open>ORDER_IS_CLOSED\<close>, place a reduce-only order on the other side.
\<close>

definition cancel_or_flatten ::
  "venues \<Rightarrow> order_side \<Rightarrow> rat \<Rightarrow> string \<Rightarrow> string \<Rightarrow> json \<Rightarrow> history
     \<Rightarrow> (exn + unit) \<times> history" where
  "cancel_or_flatten v paradex_side paradex_size paradex_account_address
       paradex_account_private_key_hex paradex_order_id h =
     (case api_call v (ParadexCancelOrder paradex_order_id) h of
        (Inl e, h1) \<Rightarrow> (Inl e, h1)
      | (Inr cancel_order_response, h1) \<Rightarrow>
          (case dict_get cancel_order_response ''error'' (JStr '''') of
             Inl e \<Rightarrow> (Inl e, h1)
           | Inr err \<Rightarrow>
               if err = JStr ''ORDER_IS_CLOSED'' then
                 (case place_paradex_order v (if paradex_side = Buy then Sell else Buy)
                         paradex_size paradex_account_address
                         paradex_account_private_key_hex True h1 of
                    (Inl e, h2) \<Rightarrow> (Inl e, h2)
                  | (Inr flatten_id, h2) \<Rightarrow> (Inr (), h2))
               else (Inr (), h1)))"

text \<open>
  The outer handlers of \<^verbatim>\<open>place_orders\<close>: \<^verbatim>\<open>except OrderCancelledError: raise\<close> and
  \<^verbatim>\<open>except Exception as error: raise ParadexError(...) from error\<close>. Every exception
  that leaves the outer \<^verbatim>\<open>try\<close> body passes through them, also those raised by the
  inner handlers.
\<close>

definition outer_except :: "exn \<Rightarrow> exn" where
  "outer_except error =
     (if isinstance error OrderCancelledError then error
      else Exn ParadexError (Lit ''Paradex order failed: '' # message error))"

definition place_orders ::
  "venues \<Rightarrow> order_side \<Rightarrow> rat \<Rightarrow> string \<Rightarrow> string \<Rightarrow> string \<Rightarrow> rat \<Rightarrow> history
     \<Rightarrow> (exn + json \<times> json) \<times> history" where
  "place_orders v paradex_side paradex_size paradex_account_address
       paradex_account_private_key_hex bitget_side bitget_size h =
     (case place_paradex_order v paradex_side paradex_size paradex_account_address
             paradex_account_private_key_hex False h of
        (Inl e, h1) \<Rightarrow> (Inl (outer_except e), h1)
      | (Inr paradex_order_id, h1) \<Rightarrow>
          (case place_bitget_order v bitget_side bitget_size h1 of
             (Inr bitget_order_id, h2) \<Rightarrow> (Inr (paradex_order_id, bitget_order_id), h2)
           | (Inl error, h2) \<Rightarrow>
               if isinstance error OrderCancelledError then
                 (case cancel_or_flatten v paradex_side paradex_size paradex_account_address
                         paradex_account_private_key_hex paradex_order_id h2 of
                    (Inl e, h3) \<Rightarrow> (Inl (outer_except e), h3)
                  | (Inr u, h3) \<Rightarrow> (Inl (outer_except error), h3))
               else
                 (case cancel_or_flatten v paradex_side paradex_size paradex_account_address
                         paradex_account_private_key_hex paradex_order_id h2 of
                    (Inl e, h3) \<Rightarrow> (Inl (outer_except e), h3)
                  | (Inr u, h3) \<Rightarrow>
                      (Inl (outer_except
                              (Exn BitgetError (Lit ''Bitget order failed: '' # message error))),
                       h3))))"

section \<open>The hedge attempt (\<^verbatim>\<open>execute_hedge_strategy\<close>)\<close>

text \<open>\<^verbatim>\<open>get_random_order_side\<close> of \<^verbatim>\<open>utils.py\<close>; \<open>coin\<close> is \<^verbatim>\<open>random.choice([True, False])\<close>.\<close>

definition get_random_order_side :: "bool \<Rightarrow> string \<times> string" where
  "get_random_order_side coin = (if coin then (''buy'', ''long'') else (''sell'', ''short''))"

text \<open>Lines 118--120: the side and direction of each leg.\<close>

definition hedge_sides :: "bool \<Rightarrow> order_side \<times> string \<times> string \<times> string" where
  "hedge_sides coin =
     (let (bitget_side, bitget_direction) = get_random_order_side coin;
          paradex_side = (if bitget_side = ''buy'' then Sell else Buy);
          paradex_direction = (if bitget_direction = ''long'' then ''short'' else ''long'')
      in (paradex_side, paradex_direction, bitget_side, bitget_direction))"

text \<open>
  What the preparatory fetches of one attempt returned, already converted by
  \<^verbatim>\<open>Decimal(...)\<close>: the two balances, the Paradex best bid and ask, the Bitget
  mark price, the Paradex market data and the Bitget contract data and open interest.
  The fetches place no order and are not modelled further.
\<close>

record snapshot =
  free_collateral :: rat
  isolatedMaxAvailable :: rat
  ask :: rat
  bid :: rat
  markPrice :: rat
  order_size_increment :: rat
  min_notional :: rat
  max_order_size :: rat
  sizeMultiplier :: rat
  minTradeUSDT :: rat
  minTradeNum :: rat
  posLimit :: rat
  openInterest :: rat

text \<open>
  Sequencing for the sizing part, where a step may raise (\<open>Inl\<close>) and the common-size
  search may not return (\<open>None\<close>).
\<close>

definition and_then ::
  "(exn + 'a) option \<Rightarrow> ('a \<Rightarrow> (exn + 'b) option) \<Rightarrow> (exn + 'b) option" where
  "and_then m f = (case m of None \<Rightarrow> None | Some (Inl e) \<Rightarrow> Some (Inl e) | Some (Inr x) \<Rightarrow> f x)"

text \<open>
  Lines 115--228 of \<^verbatim>\<open>execute_hedge_strategy\<close>, from the fetched values to the sides and
  sizes handed to \<^verbatim>\<open>place_orders\<close>.
\<close>

definition hedge_sizing ::
  "snapshot \<Rightarrow> bool \<Rightarrow> (rat \<Rightarrow> rat \<Rightarrow> rat) \<Rightarrow> (exn + order_side \<times> rat \<times> string \<times> rat) option" where
  "hedge_sizing s coin uniform =
     (let paradex_balance = free_collateral s * Decimal_0_95;
          bitget_balance = isolatedMaxAvailable s * Decimal_0_95;
          (paradex_side, paradex_direction, bitget_side, bitget_direction) = hedge_sides coin;
          paradex_price = (if paradex_side = Buy then ask s else bid s);
          bitget_price = markPrice s;
          paradex_increment = order_size_increment s;
          min_notional_paradex = min_notional s;
          max_paradex_size = max_order_size s;
          bitget_multiplier = sizeMultiplier s;
          min_notional_bitget = minTradeUSDT s;
          min_bitget_size = minTradeNum s
      in
      and_then (Some (calculate_min_paradex_size min_notional_paradex paradex_price
                        paradex_increment)) (\<lambda>min_paradex_size.
      and_then (Some (calculate_max_bitget_size (posLimit s) (openInterest s)
                        bitget_multiplier)) (\<lambda>max_bitget_size.
      and_then (Some (validate_size_constraints min_paradex_size max_paradex_size
                        min_bitget_size max_bitget_size)) (\<lambda>u.
      and_then (Some (select_position_value uniform POSITION_USD_LIMITS min_notional_paradex
                        min_notional_bitget paradex_balance bitget_balance)) (\<lambda>position_value.
      and_then (Some (floor_to_increment position_value paradex_price paradex_increment))
        (\<lambda>paradex_size.
      and_then (Some (floor_to_increment position_value bitget_price bitget_multiplier))
        (\<lambda>bitget_size.
      and_then (Some (floor_to_increment paradex_balance paradex_price paradex_increment))
        (\<lambda>affordable_paradex.
      and_then (Some (floor_to_increment bitget_balance bitget_price bitget_multiplier))
        (\<lambda>affordable_bitget.
      let max_affordable_paradex_size = min affordable_paradex max_paradex_size;
          max_affordable_bitget_size = min affordable_bitget max_bitget_size
      in
      and_then (find_common_size paradex_size bitget_size paradex_increment bitget_multiplier
                  min_paradex_size min_bitget_size max_affordable_paradex_size
                  max_affordable_bitget_size) (\<lambda>common_size.
      let (paradex_size', bitget_size') =
            final_sizes common_size paradex_size bitget_size max_paradex_size max_bitget_size
              max_affordable_paradex_size max_affordable_bitget_size
      in
      and_then (Some (validate_final_sizes paradex_size' bitget_size' min_paradex_size
                        min_bitget_size paradex_price bitget_price paradex_balance
                        bitget_balance)) (\<lambda>u'.
      Some (Inr (paradex_side, paradex_size', bitget_side, bitget_size')))))))))))))"

text \<open>
  \<^verbatim>\<open>execute_hedge_strategy\<close>: a sizing failure is re-raised with the call log untouched;
  otherwise \<^verbatim>\<open>place_orders\<close> runs. The handler \<^verbatim>\<open>except Exception: logger.error; raise\<close>
  changes nothing.
\<close>

definition execute_hedge_strategy ::
  "venues \<Rightarrow> snapshot \<Rightarrow> bool \<Rightarrow> (rat \<Rightarrow> rat \<Rightarrow> rat) \<Rightarrow> string \<Rightarrow> string \<Rightarrow> history
     \<Rightarrow> ((exn + json \<times> json) \<times> history) option" where
  "execute_hedge_strategy v s coin uniform paradex_account_address
       paradex_account_private_key_hex h =
     (case hedge_sizing s coin uniform of
        None \<Rightarrow> None
      | Some (Inl error) \<Rightarrow> Some (Inl error, h)
      | Some (Inr (paradex_side, paradex_size, bitget_side, bitget_size)) \<Rightarrow>
          Some (place_orders v paradex_side paradex_size paradex_account_address
                  paradex_account_private_key_hex bitget_side bitget_size h))"

section \<open>Scripted venues for the concrete runs\<close>

text \<open>
  A venue that accepts every Paradex order under the identifier \<open>P1\<close> and answers
  \<^verbatim>\<open>get_order\<close>, the Bitget placement and \<^verbatim>\<open>cancel_order\<close> as given.
\<close>

definition scripted_venues :: "(exn + json) \<Rightarrow> (exn + json) \<Rightarrow> (exn + json) \<Rightarrow> venues" where
  "scripted_venues get_answer bitget_answer cancel_answer =
     \<lparr>config_ready = True,
      signer = (\<lambda>order address key. ''sig''),
      clock = (\<lambda>h. 1700000000),
      respond = (\<lambda>h c. case c of
          ParadexPlaceOrder order \<Rightarrow> Inr (JObj [(''id'', JStr ''P1'')])
        | ParadexGetOrder order_id \<Rightarrow> get_answer
        | ParadexCancelOrder order_id \<Rightarrow> cancel_answer
        | BitgetPlaceOrder symbol sz side \<Rightarrow> bitget_answer)\<rparr>"

definition order_open :: "exn + json" where
  "order_open = Inr (JObj [(''id'', JStr ''P1''), (''status'', JStr ''OPEN'')])"

definition bitget_filled :: "exn + json" where
  "bitget_filled = Inr (JObj [(''msg'', JStr ''success''), (''data'', JObj [(''orderId'', JStr ''B1'')])])"

definition bitget_rejected :: "exn + json" where
  "bitget_rejected = Inr (JObj [(''msg'', JStr ''rejected'')])"

definition bitget_unreachable :: "exn + json" where
  "bitget_unreachable =
     Inl (Exn BitgetAPIError [Lit ''An error occurred while interacting with Bitget API''])"

definition cancel_done :: "exn + json" where
  "cancel_done = Inr (JObj [])"

definition cancel_closed :: "exn + json" where
  "cancel_closed = Inr (JObj [(''error'', JStr ''ORDER_IS_CLOSED'')])"

definition cancel_failed :: "exn + json" where
  "cancel_failed = Inl (Exn ParadexAPIError [Lit ''Failed to cancel order''])"



definition tight_snapshot :: snapshot where
  "tight_snapshot =
     \<lparr>free_collateral = 1000, isolatedMaxAvailable = 1000, ask = 3000, bid = 2999,
      markPrice = 3005, order_size_increment = 1/100, min_notional = 50,
      max_order_size = 1/100, sizeMultiplier = 1/1000, minTradeUSDT = 5,
      minTradeNum = 1/500, posLimit = 1/10, openInterest = 100000\<rparr>"


definition midpoint :: "rat \<Rightarrow> rat \<Rightarrow> rat" where
  "midpoint lo hi = (lo + hi) / 2"


section \<open>Reading the call log\<close>

text \<open>The calls recorded in \<open>h'\<close> after the log \<open>h\<close> it extends.\<close>

definition issued :: "history \<Rightarrow> history \<Rightarrow> call list" where
  "issued h h' = map fst (drop (length h) h')"

fun is_cancel :: "call \<Rightarrow> bool" where
  "is_cancel (ParadexCancelOrder order_id) = True"
| "is_cancel c = False"

text \<open>A flattening order is a Paradex order flagged \<^verbatim>\<open>REDUCE_ONLY\<close>.\<close>

fun is_flatten :: "call \<Rightarrow> bool" where
  "is_flatten (ParadexPlaceOrder order) = (''REDUCE_ONLY'' \<in> set (ord_flags order))"
| "is_flatten c = False"

definition is_compensation :: "call \<Rightarrow> bool" where
  "is_compensation c = (is_cancel c \<or> is_flatten c)"

fun is_order_submission :: "call \<Rightarrow> bool" where
  "is_order_submission (ParadexPlaceOrder order) = True"
| "is_order_submission (BitgetPlaceOrder symbol sz side) = True"
| "is_order_submission c = False"

text \<open>The order that \<^verbatim>\<open>place_paradex_order\<close> submits once it is signed.\<close>

definition submitted_order ::
  "venues \<Rightarrow> order_side \<Rightarrow> rat \<Rightarrow> string \<Rightarrow> string \<Rightarrow> bool \<Rightarrow> history \<Rightarrow> order" where
  "submitted_order v side sz paradex_account_address paradex_account_private_key_hex
       reduce_only h =
     (let order = \<lparr>ord_market = ''ETH-USD-PERP'', ord_type = Market, ord_side = side,
                    ord_size = sz, ord_signature_timestamp = clock v h * 1000,
                    ord_flags = (if reduce_only then [''REDUCE_ONLY''] else []),
                    ord_signature = ''''\<rparr>
      in order\<lparr>ord_signature :=
           signer v order paradex_account_address paradex_account_private_key_hex\<rparr>)"

section \<open>The common-size search\<close>























section \<open>Sizing\<close>




lemma validate_size_constraints_fails:
  "max_paradex_size < min_paradex_size \<or> max_bitget_size < min_bitget_size \<Longrightarrow>
   \<exists>m. validate_size_constraints min_paradex_size max_paradex_size min_bitget_size
          max_bitget_size = Inl (Exn ValueError m)"
  by (auto simp: validate_size_constraints_def)

lemma hedge_sizing_validation_failure:
  assumes "calculate_min_paradex_size (min_notional s)
             (if fst (hedge_sides coin) = Buy then ask s else bid s)
             (order_size_increment s) = Inr min_paradex_size"
    and "calculate_max_bitget_size (posLimit s) (openInterest s) (sizeMultiplier s)
           = Inr max_bitget_size"
    and "validate_size_constraints min_paradex_size (max_order_size s) (minTradeNum s)
           max_bitget_size = Inl e"
  shows "hedge_sizing s coin uniform = Some (Inl e)"
  using assms
  by (cases coin)
     (simp_all add: hedge_sizing_def hedge_sides_def get_random_order_side_def and_then_def
        Let_def)

text \<open>
  Claim C7 (as amended). If either venue's computed maximum size is strictly below its
  computed minimum size, the attempt fails fast with a \<^verbatim>\<open>ValueError\<close> before any order
  is placed: the call log is returned unchanged.
\<close>

theorem size_constraints_fail_fast:
  assumes "calculate_min_paradex_size (min_notional s)
             (if fst (hedge_sides coin) = Buy then ask s else bid s)
             (order_size_increment s) = Inr min_paradex_size"
    and "calculate_max_bitget_size (posLimit s) (openInterest s) (sizeMultiplier s)
           = Inr max_bitget_size"
    and "max_order_size s < min_paradex_size \<or> max_bitget_size < minTradeNum s"
  shows "\<exists>m. validate_size_constraints min_paradex_size (max_order_size s) (minTradeNum s)
               max_bitget_size = Inl (Exn ValueError m) \<and>
             execute_hedge_strategy v s coin uniform paradex_account_address
               paradex_account_private_key_hex h = Some (Inl (Exn ValueError m), h)"
proof -
  from validate_size_constraints_fails[OF assms(3)]
  obtain m where m: "validate_size_constraints min_paradex_size (max_order_size s)
      (minTradeNum s) max_bitget_size = Inl (Exn ValueError m)" by blast
  from hedge_sizing_validation_failure[OF assms(1,2) m]
  have "hedge_sizing s coin uniform = Some (Inl (Exn ValueError m))" .
  then have "execute_hedge_strategy v s coin uniform paradex_account_address
               paradex_account_private_key_hex h = Some (Inl (Exn ValueError m), h)"
    by (simp add: execute_hedge_strategy_def)
  with m show ?thesis by blast
qed

lemma tight_min: "calculate_min_paradex_size (min_notional tight_snapshot)
             (if fst (hedge_sides True) = Buy then ask tight_snapshot else bid tight_snapshot)
             (order_size_increment tight_snapshot) = Inr (1/50)"
  by code_simp

lemma tight_max: "calculate_max_bitget_size (posLimit tight_snapshot) (openInterest tight_snapshot)
     (sizeMultiplier tight_snapshot) = Inr 9500"
  by code_simp

lemma tight_lt: "max_order_size tight_snapshot < 1/50" by code_simp

theorem size_constraints_fail_fast_witness:
  "\<exists>m. execute_hedge_strategy (scripted_venues order_open bitget_filled cancel_done)
          tight_snapshot True midpoint ''0xa'' ''0xk'' [] = Some (Inl (Exn ValueError m), [])"
  using size_constraints_fail_fast[OF tight_min tight_max disjI1[OF tight_lt]]
  by blast

text \<open>
  Claim C7 as stated fails: the exception raised is a \<^verbatim>\<open>ValueError\<close>, which is not an
  \<^verbatim>\<open>OrderSizeError\<close>. Here the Paradex maximum 0.01 is below the minimum 0.02.
\<close>

theorem size_error_kind_counterexample:
  "max_order_size tight_snapshot < 1/50 \<and>
   execute_hedge_strategy (scripted_venues order_open bitget_filled cancel_done)
      tight_snapshot True midpoint ''0xa'' ''0xk'' [] =
     Some (Inl (Exn ValueError
            [Lit ''Paradex max order size ('', Num (1/100),
             Lit '') is less than min order size ('', Num (1/50), Lit '')'']), []) \<and>
   \<not> isinstance (Exn ValueError
            [Lit ''Paradex max order size ('', Num (1/100),
             Lit '') is less than min order size ('', Num (1/50), Lit '')'']) OrderSizeError"
  by code_simp






section \<open>Order placement and compensation\<close>

lemma issued_append [simp]: "issued h (h @ ext) = map fst ext"
  by (simp add: issued_def)

lemma issued_append2 [simp]: "issued h ((h @ e1) @ e2) = map fst (e1 @ e2)"
  by (simp add: issued_def)

lemma isinstance_OrderCancelledError:
  "isinstance e OrderCancelledError \<longleftrightarrow> cls e = OrderCancelledError"
  by (cases "cls e") (simp_all add: isinstance_def)

lemma isinstance_HedgePositionMismatchError:
  "isinstance e HedgePositionMismatchError \<longleftrightarrow> cls e = HedgePositionMismatchError"
  by (cases "cls e") (simp_all add: isinstance_def)

lemma isinstance_BitgetError:
  "isinstance e BitgetError \<longleftrightarrow> cls e = BitgetError"
  by (cases "cls e") (simp_all add: isinstance_def)

lemma place_bitget_order_history:
  "snd (place_bitget_order v side sz h) =
     h @ [(BitgetPlaceOrder ''ETHPERP'' sz side, respond v h (BitgetPlaceOrder ''ETHPERP'' sz side))]"
  by (simp add: place_bitget_order_def api_call_def Let_def split: sum.splits)

lemma place_paradex_order_shape:
  "\<exists>ext. snd (place_paradex_order v side sz a k ro h) = h @ ext \<and>
     (if config_ready v then
        (\<exists>r. ext = [(ParadexPlaceOrder (submitted_order v side sz a k ro h), r)]) \<or>
        (\<exists>r i x. ext = [(ParadexPlaceOrder (submitted_order v side sz a k ro h), r),
                         (ParadexGetOrder i, x)])
      else ext = [])"
  by (simp add: place_paradex_order_def submitted_order_def sign_order_def api_call_def Let_def
        split: sum.splits)

lemma place_paradex_order_ready:
  "fst (place_paradex_order v side sz a k ro h) = Inr i \<Longrightarrow> config_ready v"
  by (simp add: place_paradex_order_def sign_order_def Let_def split: if_splits)

lemma submitted_order_fields:
  "ord_side (submitted_order v side sz a k ro h) = side"
  "ord_size (submitted_order v side sz a k ro h) = sz"
  "ord_type (submitted_order v side sz a k ro h) = Market"
  "ord_market (submitted_order v side sz a k ro h) = ''ETH-USD-PERP''"
  "ord_flags (submitted_order v side sz a k ro h) = (if ro then [''REDUCE_ONLY''] else [])"
  by (simp_all add: submitted_order_def Let_def)

lemma place_paradex_order_calls:
  "\<exists>ext. snd (place_paradex_order v side sz a k ro h) = h @ ext \<and>
         filter is_cancel (map fst ext) = [] \<and>
         filter is_order_submission (map fst ext) =
           (if config_ready v then [ParadexPlaceOrder (submitted_order v side sz a k ro h)]
            else []) \<and>
         (\<forall>c \<in> set (map fst ext). is_flatten c \<longrightarrow> ro)"
proof -
  from place_paradex_order_shape[of v side sz a k ro h]
  obtain ext where ext: "snd (place_paradex_order v side sz a k ro h) = h @ ext"
    and shape: "if config_ready v then
        (\<exists>r. ext = [(ParadexPlaceOrder (submitted_order v side sz a k ro h), r)]) \<or>
        (\<exists>r i x. ext = [(ParadexPlaceOrder (submitted_order v side sz a k ro h), r),
                         (ParadexGetOrder i, x)])
      else ext = []" by blast
  have "filter is_cancel (map fst ext) = [] \<and>
         filter is_order_submission (map fst ext) =
           (if config_ready v then [ParadexPlaceOrder (submitted_order v side sz a k ro h)]
            else []) \<and>
         (\<forall>c \<in> set (map fst ext). is_flatten c \<longrightarrow> ro)"
  proof (cases "config_ready v")
    case False
    with shape show ?thesis by simp
  next
    case True
    with shape show ?thesis
      by (auto simp: submitted_order_fields)
  qed
  with ext show ?thesis by blast
qed

text \<open>The log after the compensation block.\<close>

lemma cancel_or_flatten_history:
  "snd (cancel_or_flatten v paradex_side paradex_size a k paradex_order_id h) =
     (let c = (ParadexCancelOrder paradex_order_id,
               respond v h (ParadexCancelOrder paradex_order_id));
          closed = (case snd c of
                      Inl e \<Rightarrow> False
                    | Inr cancel_order_response \<Rightarrow>
                        dict_get cancel_order_response ''error'' (JStr '''') =
                          Inr (JStr ''ORDER_IS_CLOSED''))
      in if closed then
           snd (place_paradex_order v (if paradex_side = Buy then Sell else Buy) paradex_size
                  a k True (h @ [c]))
         else h @ [c])"
  by (simp add: cancel_or_flatten_def api_call_def Let_def split: sum.splits prod.splits)

lemma cancel_or_flatten_starts_with_cancel:
  "\<exists>ext. snd (cancel_or_flatten v paradex_side paradex_size a k paradex_order_id h) =
           h @ (ParadexCancelOrder paradex_order_id,
                respond v h (ParadexCancelOrder paradex_order_id)) # ext"
proof -
  let ?c = "(ParadexCancelOrder paradex_order_id,
               respond v h (ParadexCancelOrder paradex_order_id))"
  from place_paradex_order_shape[of v "if paradex_side = Buy then Sell else Buy" paradex_size
          a k True "h @ [?c]"]
  obtain ext where "snd (place_paradex_order v (if paradex_side = Buy then Sell else Buy)
         paradex_size a k True (h @ [?c])) = (h @ [?c]) @ ext" by blast
  then show ?thesis
    unfolding cancel_or_flatten_history Let_def by auto
qed

text \<open>How \<^verbatim>\<open>place_orders\<close> ends, by the outcome of each step.\<close>

lemma place_orders_leg_a_failed:
  assumes "place_paradex_order v paradex_side paradex_size a k False h = (Inl e, h1)"
  shows "place_orders v paradex_side paradex_size a k bitget_side bitget_size h =
           (Inl (outer_except e), h1)"
  using assms by (simp add: place_orders_def)

lemma place_orders_both_placed:
  assumes "place_paradex_order v paradex_side paradex_size a k False h = (Inr paradex_order_id, h1)"
    and "place_bitget_order v bitget_side bitget_size h1 = (Inr bitget_order_id, h2)"
  shows "place_orders v paradex_side paradex_size a k bitget_side bitget_size h =
           (Inr (paradex_order_id, bitget_order_id), h2)"
  using assms by (simp add: place_orders_def)

lemma place_orders_compensation_failed:
  assumes "place_paradex_order v paradex_side paradex_size a k False h = (Inr paradex_order_id, h1)"
    and "place_bitget_order v bitget_side bitget_size h1 = (Inl error, h2)"
    and "cancel_or_flatten v paradex_side paradex_size a k paradex_order_id h2 = (Inl e, h3)"
  shows "place_orders v paradex_side paradex_size a k bitget_side bitget_size h =
           (Inl (outer_except e), h3)"
  using assms by (simp add: place_orders_def)

lemma place_orders_compensated:
  assumes "place_paradex_order v paradex_side paradex_size a k False h = (Inr paradex_order_id, h1)"
    and "place_bitget_order v bitget_side bitget_size h1 = (Inl error, h2)"
    and "cancel_or_flatten v paradex_side paradex_size a k paradex_order_id h2 = (Inr u, h3)"
  shows "place_orders v paradex_side paradex_size a k bitget_side bitget_size h =
           (Inl (outer_except
                  (if isinstance error OrderCancelledError then error
                   else Exn BitgetError (Lit ''Bitget order failed: '' # message error))), h3)"
  using assms by (simp add: place_orders_def)

lemma place_orders_leg_b_failed_history:
  assumes "place_paradex_order v paradex_side paradex_size a k False h = (Inr paradex_order_id, h1)"
    and "place_bitget_order v bitget_side bitget_size h1 = (Inl error, h2)"
  shows "snd (place_orders v paradex_side paradex_size a k bitget_side bitget_size h) =
           snd (cancel_or_flatten v paradex_side paradex_size a k paradex_order_id h2)"
  using assms by (simp add: place_orders_def split: prod.splits sum.splits)

lemma leg_b_failed_log:
  assumes A: "place_paradex_order v paradex_side paradex_size a k False h =
                (Inr paradex_order_id, h1)"
    and B: "place_bitget_order v bitget_side bitget_size h1 = (Inl error, h2)"
  shows "\<exists>ext ext'. h2 = h @ ext \<and> filter is_cancel (map fst ext) = [] \<and>
           snd (place_orders v paradex_side paradex_size a k bitget_side bitget_size h) =
             h2 @ (ParadexCancelOrder paradex_order_id,
                   respond v h2 (ParadexCancelOrder paradex_order_id)) # ext'"
proof -
  from place_paradex_order_calls[of v paradex_side paradex_size a k False h] A
  obtain extA where h1: "h1 = h @ extA"
    and nocancel: "filter is_cancel (map fst extA) = []"
    by auto
  from place_bitget_order_history[of v bitget_side bitget_size h1] B
  have h2: "h2 = h1 @ [(BitgetPlaceOrder ''ETHPERP'' bitget_size bitget_side,
                        respond v h1 (BitgetPlaceOrder ''ETHPERP'' bitget_size bitget_side))]"
    by simp
  let ?ext = "extA @ [(BitgetPlaceOrder ''ETHPERP'' bitget_size bitget_side,
                        respond v h1 (BitgetPlaceOrder ''ETHPERP'' bitget_size bitget_side))]"
  have e1: "h2 = h @ ?ext" using h1 h2 by simp
  have e2: "filter is_cancel (map fst ?ext) = []" using nocancel by simp
  from A B have "snd (place_orders v paradex_side paradex_size a k bitget_side bitget_size h) =
          snd (cancel_or_flatten v paradex_side paradex_size a k paradex_order_id h2)"
    by (simp add: place_orders_leg_b_failed_history)
  with cancel_or_flatten_starts_with_cancel[of v paradex_side paradex_size a k
             paradex_order_id h2]
  obtain ext' where e3: "snd (place_orders v paradex_side paradex_size a k bitget_side
       bitget_size h) = h2 @ (ParadexCancelOrder paradex_order_id,
                respond v h2 (ParadexCancelOrder paradex_order_id)) # ext'" by auto
  from e1 e2 e3 show ?thesis by blast
qed


text \<open>
  Claim C2. In every run of \<^verbatim>\<open>place_orders\<close> a compensation call (the cancel of the
  leg-A order or a reduce-only flattening order) is issued if and only if the leg-A
  placement succeeded and the leg-B placement failed; when the leg-A placement fails, the
  run ends with the log of that placement, which holds neither a cancel nor a flattening
  order.
\<close>

theorem compensation_iff_leg_b_failed:
  assumes A: "place_paradex_order v paradex_side paradex_size a k False h = (ra, h1)"
    and B: "place_bitget_order v bitget_side bitget_size h1 = (rb, h2)"
  shows "((\<exists>c \<in> set (issued h (snd (place_orders v paradex_side paradex_size a k
                                        bitget_side bitget_size h))). is_compensation c)
            \<longleftrightarrow> (\<not> isl ra \<and> isl rb)) \<and>
         (isl ra \<longrightarrow>
            snd (place_orders v paradex_side paradex_size a k bitget_side bitget_size h) = h1 \<and>
            (\<forall>c \<in> set (issued h h1). \<not> is_cancel c \<and> \<not> is_flatten c))"
proof -
  let ?run = "place_orders v paradex_side paradex_size a k bitget_side bitget_size h"
  from place_paradex_order_calls[of v paradex_side paradex_size a k False h] A
  obtain ext where h1: "h1 = h @ ext"
    and nocancel: "filter is_cancel (map fst ext) = []"
    and noflat: "\<forall>c \<in> set (map fst ext). \<not> is_flatten c"
    by auto
  from nocancel have nocancel': "\<forall>c \<in> set (map fst ext). \<not> is_cancel c"
    by (simp add: filter_empty_conv)
  have quiet: "\<forall>c \<in> set (map fst ext). \<not> is_compensation c"
    using nocancel' noflat by (simp add: is_compensation_def)
  from place_bitget_order_history[of v bitget_side bitget_size h1] B
  have h2: "h2 = h1 @ [(BitgetPlaceOrder ''ETHPERP'' bitget_size bitget_side,
                        respond v h1 (BitgetPlaceOrder ''ETHPERP'' bitget_size bitget_side))]"
    by simp
  show ?thesis
  proof (cases ra)
    case (Inl e)
    with A have "?run = (Inl (outer_except e), h1)"
      by (simp add: place_orders_leg_a_failed)
    with Inl h1 quiet nocancel' noflat show ?thesis by simp
  next
    case (Inr paradex_order_id)
    note ra = this
    show ?thesis
    proof (cases rb)
      case (Inr bitget_order_id)
      with A B ra have "?run = (Inr (paradex_order_id, bitget_order_id), h2)"
        by (simp add: place_orders_both_placed)
      with ra Inr h1 h2 quiet show ?thesis
        by (simp add: is_compensation_def)
    next
      case (Inl error)
      with A B ra have "snd ?run =
          snd (cancel_or_flatten v paradex_side paradex_size a k paradex_order_id h2)"
        by (simp add: place_orders_leg_b_failed_history)
      with cancel_or_flatten_starts_with_cancel[of v paradex_side paradex_size a k
             paradex_order_id h2]
      obtain ext' where "snd ?run = h2 @ (ParadexCancelOrder paradex_order_id,
                respond v h2 (ParadexCancelOrder paradex_order_id)) # ext'" by auto
      then have "snd ?run = h @ (ext @ [(BitgetPlaceOrder ''ETHPERP'' bitget_size bitget_side,
                        respond v h1 (BitgetPlaceOrder ''ETHPERP'' bitget_size bitget_side))]
                  @ (ParadexCancelOrder paradex_order_id,
                respond v h2 (ParadexCancelOrder paradex_order_id)) # ext')"
        using h1 h2 by simp
      then have "ParadexCancelOrder paradex_order_id \<in> set (issued h (snd ?run))"
        by (simp only: issued_append) simp
      then have "\<exists>c \<in> set (issued h (snd ?run)). is_compensation c"
        by (rule bexI[rotated]) (simp add: is_compensation_def)
      with ra Inl show ?thesis by simp
    qed
  qed
qed

theorem compensation_iff_leg_b_failed_witness:
  "\<not> isl (fst (place_paradex_order (scripted_venues order_open bitget_rejected cancel_done)
                 Buy (1/50) ''0xa'' ''0xk'' False [])) \<and>
   isl (fst (place_bitget_order (scripted_venues order_open bitget_rejected cancel_done)
               ''sell'' (1/50)
               (snd (place_paradex_order (scripted_venues order_open bitget_rejected cancel_done)
                       Buy (1/50) ''0xa'' ''0xk'' False [])))) \<and>
   (\<exists>c \<in> set (issued [] (snd (place_orders
                 (scripted_venues order_open bitget_rejected cancel_done)
                 Buy (1/50) ''0xa'' ''0xk'' ''sell'' (1/50) []))). is_compensation c)"
proof -
  let ?V = "scripted_venues order_open bitget_rejected cancel_done"
  let ?A = "place_paradex_order ?V Buy (1/50) ''0xa'' ''0xk'' False []"
  let ?B = "place_bitget_order ?V ''sell'' (1/50) (snd ?A)"
  have A: "?A = (fst ?A, snd ?A)" by simp
  have B: "?B = (fst ?B, snd ?B)" by simp
  have a: "\<not> isl (fst ?A)" by code_simp
  have b: "isl (fst ?B)" by code_simp
  from compensation_iff_leg_b_failed[OF A B] a b show ?thesis by blast
qed

text \<open>
  Claim C3 (as amended). Whenever the compensation of leg A fails (the cancel raises, or
  the flattening order raises), \<^verbatim>\<open>place_orders\<close> ends with an error and never with
  success: the compensation failure itself when it is an \<^verbatim>\<open>OrderCancelledError\<close>,
  otherwise a \<^verbatim>\<open>ParadexError\<close> carrying its message. It is never a
  \<^verbatim>\<open>HedgePositionMismatchError\<close>.
\<close>

theorem compensation_failure_surfaces:
  assumes A: "place_paradex_order v paradex_side paradex_size a k False h =
                (Inr paradex_order_id, h1)"
    and B: "place_bitget_order v bitget_side bitget_size h1 = (Inl error, h2)"
    and K: "cancel_or_flatten v paradex_side paradex_size a k paradex_order_id h2 = (Inl e, h3)"
  shows "place_orders v paradex_side paradex_size a k bitget_side bitget_size h =
           (Inl (if cls e = OrderCancelledError then e
                 else Exn ParadexError (Lit ''Paradex order failed: '' # message e)), h3) \<and>
         \<not> isinstance (if cls e = OrderCancelledError then e
                 else Exn ParadexError (Lit ''Paradex order failed: '' # message e))
              HedgePositionMismatchError"
proof -
  have "outer_except e = (if cls e = OrderCancelledError then e
                 else Exn ParadexError (Lit ''Paradex order failed: '' # message e))"
    by (simp add: outer_except_def isinstance_OrderCancelledError)
  moreover have "\<not> isinstance (if cls e = OrderCancelledError then e
                 else Exn ParadexError (Lit ''Paradex order failed: '' # message e))
              HedgePositionMismatchError"
    by (simp add: isinstance_HedgePositionMismatchError)
  ultimately show ?thesis
    using place_orders_compensation_failed[OF A B K] by simp
qed

theorem compensation_failure_surfaces_witness:
  "fst (place_orders (scripted_venues order_open bitget_unreachable cancel_failed)
          Buy (1/50) ''0xa'' ''0xk'' ''sell'' (1/50) []) =
     Inl (Exn ParadexError [Lit ''Paradex order failed: '', Lit ''Failed to cancel order''])"
proof -
  let ?V = "scripted_venues order_open bitget_unreachable cancel_failed"
  let ?A = "place_paradex_order ?V Buy (1/50) ''0xa'' ''0xk'' False []"
  let ?B = "place_bitget_order ?V ''sell'' (1/50) (snd ?A)"
  let ?K = "cancel_or_flatten ?V Buy (1/50) ''0xa'' ''0xk'' (JStr ''P1'') (snd ?B)"
  have A: "?A = (Inr (JStr ''P1''), snd ?A)" by code_simp
  have B: "?B = (Inl (Exn BitgetAPIError
                  [Lit ''An error occurred while interacting with Bitget API'']), snd ?B)"
    by code_simp
  have K: "?K = (Inl (Exn ParadexAPIError [Lit ''Failed to cancel order'']), snd ?K)"
    by code_simp
  from compensation_failure_surfaces[OF A B K] show ?thesis by simp
qed

text \<open>
  Claim C3 as stated fails: leg A is placed, leg B is unreachable, the cancel raises, and
  the error surfaced is a \<^verbatim>\<open>ParadexError\<close>, not a \<^verbatim>\<open>HedgePositionMismatchError\<close>.
\<close>

theorem compensation_failure_kind_counterexample:
  "fst (place_orders (scripted_venues order_open bitget_unreachable cancel_failed)
          Buy (1/50) ''0xa'' ''0xk'' ''sell'' (1/50) []) =
     Inl (Exn ParadexError [Lit ''Paradex order failed: '', Lit ''Failed to cancel order'']) \<and>
   \<not> isinstance (Exn ParadexError [Lit ''Paradex order failed: '', Lit ''Failed to cancel order''])
       HedgePositionMismatchError \<and>
   last (snd (place_orders (scripted_venues order_open bitget_unreachable cancel_failed)
          Buy (1/50) ''0xa'' ''0xk'' ''sell'' (1/50) [])) =
     (ParadexCancelOrder (JStr ''P1''),
      Inl (Exn ParadexAPIError [Lit ''Failed to cancel order'']))"
  by code_simp

text \<open>
  Claim C4 (as amended). When leg B fails with an \<^verbatim>\<open>OrderCancelledError\<close> after leg A
  was placed and the compensation of leg A succeeds, \<^verbatim>\<open>place_orders\<close> surfaces that
  \<^verbatim>\<open>OrderCancelledError\<close> itself, unwrapped; it is not a \<^verbatim>\<open>BitgetError\<close>.
\<close>

theorem cancelled_leg_b_surfaces_unwrapped:
  assumes A: "place_paradex_order v paradex_side paradex_size a k False h =
                (Inr paradex_order_id, h1)"
    and B: "place_bitget_order v bitget_side bitget_size h1 = (Inl error, h2)"
    and C: "isinstance error OrderCancelledError"
    and K: "cancel_or_flatten v paradex_side paradex_size a k paradex_order_id h2 = (Inr u, h3)"
  shows "place_orders v paradex_side paradex_size a k bitget_side bitget_size h =
           (Inl error, h3) \<and> \<not> isinstance error BitgetError"
proof -
  from C have c: "cls error = OrderCancelledError"
    by (simp add: isinstance_OrderCancelledError)
  from place_orders_compensated[OF A B K] C
  have "place_orders v paradex_side paradex_size a k bitget_side bitget_size h =
           (Inl error, h3)"
    by (simp add: outer_except_def)
  moreover from c have "\<not> isinstance error BitgetError"
    by (simp add: isinstance_BitgetError)
  ultimately show ?thesis by simp
qed

theorem cancelled_leg_b_surfaces_unwrapped_witness:
  "fst (place_orders (scripted_venues order_open bitget_rejected cancel_closed)
          Buy (1/50) ''0xa'' ''0xk'' ''sell'' (1/50) []) =
     Inl (Exn OrderCancelledError [Lit ''Order was cancelled''])"
proof -
  let ?V = "scripted_venues order_open bitget_rejected cancel_closed"
  let ?A = "place_paradex_order ?V Buy (1/50) ''0xa'' ''0xk'' False []"
  let ?B = "place_bitget_order ?V ''sell'' (1/50) (snd ?A)"
  let ?K = "cancel_or_flatten ?V Buy (1/50) ''0xa'' ''0xk'' (JStr ''P1'') (snd ?B)"
  have A: "?A = (Inr (JStr ''P1''), snd ?A)" by code_simp
  have B: "?B = (Inl (Exn OrderCancelledError [Lit ''Order was cancelled'']), snd ?B)"
    by code_simp
  have C: "isinstance (Exn OrderCancelledError [Lit ''Order was cancelled'']) OrderCancelledError"
    by code_simp
  have K: "?K = (Inr (), snd ?K)" by code_simp
  from cancelled_leg_b_surfaces_unwrapped[OF A B C K] show ?thesis by simp
qed

text \<open>
  Claim C4 as stated fails on the specification's own example: leg A is placed, leg B is
  rejected (\<^verbatim>\<open>OrderCancelledError\<close>), the cancel answers \<^verbatim>\<open>ORDER_IS_CLOSED\<close>, the
  reduce-only order is placed, and the error surfaced is the \<^verbatim>\<open>OrderCancelledError\<close>.
\<close>

theorem cancelled_leg_b_not_wrapped_counterexample:
  "fst (place_bitget_order (scripted_venues order_open bitget_rejected cancel_closed)
          ''sell'' (1/50)
          (snd (place_paradex_order (scripted_venues order_open bitget_rejected cancel_closed)
                  Buy (1/50) ''0xa'' ''0xk'' False []))) =
     Inl (Exn OrderCancelledError [Lit ''Order was cancelled'']) \<and>
   filter is_compensation
     (issued [] (snd (place_orders (scripted_venues order_open bitget_rejected cancel_closed)
                        Buy (1/50) ''0xa'' ''0xk'' ''sell'' (1/50) []))) =
     [ParadexCancelOrder (JStr ''P1''),
      ParadexPlaceOrder
        \<lparr>ord_market = ''ETH-USD-PERP'', ord_type = Market, ord_side = Sell, ord_size = 1/50,
         ord_signature_timestamp = 1700000000000, ord_flags = [''REDUCE_ONLY''],
         ord_signature = ''sig''\<rparr>] \<and>
   fst (place_orders (scripted_venues order_open bitget_rejected cancel_closed)
          Buy (1/50) ''0xa'' ''0xk'' ''sell'' (1/50) []) =
     Inl (Exn OrderCancelledError [Lit ''Order was cancelled'']) \<and>
   \<not> isinstance (Exn OrderCancelledError [Lit ''Order was cancelled'']) BitgetError"
  by code_simp

text \<open>For the record: a leg-B failure of any other kind is wrapped twice, the
  \<^verbatim>\<open>BitgetError\<close> of the inner handler being caught by the outer one.\<close>

lemma other_leg_b_failure_surfaces_as_ParadexError:
  assumes A: "place_paradex_order v paradex_side paradex_size a k False h =
                (Inr paradex_order_id, h1)"
    and B: "place_bitget_order v bitget_side bitget_size h1 = (Inl error, h2)"
    and C: "\<not> isinstance error OrderCancelledError"
    and K: "cancel_or_flatten v paradex_side paradex_size a k paradex_order_id h2 = (Inr u, h3)"
  shows "place_orders v paradex_side paradex_size a k bitget_side bitget_size h =
           (Inl (Exn ParadexError
                  (Lit ''Paradex order failed: '' # Lit ''Bitget order failed: '' # message error)),
            h3)"
  using place_orders_compensated[OF A B K] C
  by (simp add: outer_except_def isinstance_OrderCancelledError)

text \<open>
  Claim C6. During compensation exactly one cancel of the leg-A order is issued. When
  its response reports \<^verbatim>\<open>ORDER_IS_CLOSED\<close>, exactly one order is submitted afterwards:
  a reduce-only market order on the opposite side of leg A for leg A's size. When the
  response reports anything else, the cancel is the last call.
\<close>

theorem closed_cancel_is_flattened_once:
  assumes A: "place_paradex_order v paradex_side paradex_size a k False h =
                (Inr paradex_order_id, h1)"
    and B: "place_bitget_order v bitget_side bitget_size h1 = (Inl error, h2)"
    and R: "respond v h2 (ParadexCancelOrder paradex_order_id) = Inr cancel_order_response"
    and E: "dict_get cancel_order_response ''error'' (JStr '''') = Inr err"
  shows "(let after_cancel = h2 @ [(ParadexCancelOrder paradex_order_id,
                                    Inr cancel_order_response)];
              final = snd (place_orders v paradex_side paradex_size a k bitget_side
                             bitget_size h);
              flatten = submitted_order v (if paradex_side = Buy then Sell else Buy)
                          paradex_size a k True after_cancel
          in filter is_cancel (issued h final) = [ParadexCancelOrder paradex_order_id] \<and>
             (err = JStr ''ORDER_IS_CLOSED'' \<longrightarrow>
                filter is_order_submission (issued after_cancel final) =
                  [ParadexPlaceOrder flatten] \<and>
                ord_side flatten = (if paradex_side = Buy then Sell else Buy) \<and>
                ord_size flatten = paradex_size \<and>
                ord_type flatten = Market \<and>
                ord_flags flatten = [''REDUCE_ONLY'']) \<and>
             (err \<noteq> JStr ''ORDER_IS_CLOSED'' \<longrightarrow> final = after_cancel))"
proof -
  let ?c = "(ParadexCancelOrder paradex_order_id, Inr cancel_order_response :: exn + json)"
  let ?opp = "if paradex_side = Buy then Sell else Buy"
  let ?final = "snd (place_orders v paradex_side paradex_size a k bitget_side bitget_size h)"
  from A have ready: "config_ready v"
    using place_paradex_order_ready[of v paradex_side paradex_size a k False h] by simp
  from leg_b_failed_log[OF A B]
  obtain ext where h2: "h2 = h @ ext" and quiet: "filter is_cancel (map fst ext) = []"
    by blast
  from A B have fin: "?final =
          snd (cancel_or_flatten v paradex_side paradex_size a k paradex_order_id h2)"
    by (simp add: place_orders_leg_b_failed_history)
  show ?thesis
  proof (cases "err = JStr ''ORDER_IS_CLOSED''")
    case False
    with fin R E have f: "?final = h2 @ [?c]"
      by (simp add: cancel_or_flatten_history Let_def)
    then have "?final = h @ (ext @ [?c])" using h2 by simp
    then have "issued h ?final = map fst (ext @ [?c])" by (simp only: issued_append)
    with quiet have "filter is_cancel (issued h ?final) = [ParadexCancelOrder paradex_order_id]"
      by simp
    with False f show ?thesis by (simp add: Let_def)
  next
    case True
    with fin R E have f: "?final =
        snd (place_paradex_order v ?opp paradex_size a k True (h2 @ [?c]))"
      by (simp add: cancel_or_flatten_history Let_def)
    from place_paradex_order_calls[of v ?opp paradex_size a k True "h2 @ [?c]"] ready
    obtain ext' where e: "snd (place_paradex_order v ?opp paradex_size a k True (h2 @ [?c])) =
           (h2 @ [?c]) @ ext'"
      and q: "filter is_cancel (map fst ext') = []"
      and s: "filter is_order_submission (map fst ext') =
           [ParadexPlaceOrder (submitted_order v ?opp paradex_size a k True (h2 @ [?c]))]"
      by auto
    from f e have f1: "?final = (h2 @ [?c]) @ ext'" by simp
    then have i1: "issued (h2 @ [?c]) ?final = map fst ext'" by (simp only: issued_append)
    from f1 h2 have "?final = h @ (ext @ [?c] @ ext')" by simp
    then have "issued h ?final = map fst (ext @ [?c] @ ext')" by (simp only: issued_append)
    with quiet q have i2: "filter is_cancel (issued h ?final) =
        [ParadexCancelOrder paradex_order_id]" by simp
    from True i1 i2 s show ?thesis
      by (simp add: Let_def submitted_order_fields)
  qed
qed

theorem closed_cancel_is_flattened_once_witness:
  "filter is_cancel
     (issued [] (snd (place_orders (scripted_venues order_open bitget_rejected cancel_closed)
                        Buy (1/50) ''0xa'' ''0xk'' ''sell'' (1/50) []))) =
     [ParadexCancelOrder (JStr ''P1'')] \<and>
   filter is_order_submission
     (issued (snd (place_bitget_order
                     (scripted_venues order_open bitget_rejected cancel_closed) ''sell'' (1/50)
                     (snd (place_paradex_order
                             (scripted_venues order_open bitget_rejected cancel_closed)
                             Buy (1/50) ''0xa'' ''0xk'' False [])))
               @ [(ParadexCancelOrder (JStr ''P1''),
                   Inr (JObj [(''error'', JStr ''ORDER_IS_CLOSED'')]))])
        (snd (place_orders (scripted_venues order_open bitget_rejected cancel_closed)
                Buy (1/50) ''0xa'' ''0xk'' ''sell'' (1/50) []))) =
     [ParadexPlaceOrder
        \<lparr>ord_market = ''ETH-USD-PERP'', ord_type = Market, ord_side = Sell, ord_size = 1/50,
         ord_signature_timestamp = 1700000000000, ord_flags = [''REDUCE_ONLY''],
         ord_signature = ''sig''\<rparr>]"
proof -
  let ?V = "scripted_venues order_open bitget_rejected cancel_closed"
  let ?A = "place_paradex_order ?V Buy (1/50) ''0xa'' ''0xk'' False []"
  let ?B = "place_bitget_order ?V ''sell'' (1/50) (snd ?A)"
  let ?after = "snd ?B @ [(ParadexCancelOrder (JStr ''P1''),
                   Inr (JObj [(''error'', JStr ''ORDER_IS_CLOSED'')]))]"
  have A: "?A = (Inr (JStr ''P1''), snd ?A)" by code_simp
  have B: "?B = (Inl (Exn OrderCancelledError [Lit ''Order was cancelled'']), snd ?B)"
    by code_simp
  have R: "respond ?V (snd ?B) (ParadexCancelOrder (JStr ''P1'')) =
             Inr (JObj [(''error'', JStr ''ORDER_IS_CLOSED'')])" by code_simp
  have E: "dict_get (JObj [(''error'', JStr ''ORDER_IS_CLOSED'')]) ''error'' (JStr '''') =
             Inr (JStr ''ORDER_IS_CLOSED'')" by code_simp
  have F: "submitted_order ?V (if Buy = Buy then Sell else Buy) (1/50) ''0xa'' ''0xk'' True ?after =
      \<lparr>ord_market = ''ETH-USD-PERP'', ord_type = Market, ord_side = Sell, ord_size = 1/50,
         ord_signature_timestamp = 1700000000000, ord_flags = [''REDUCE_ONLY''],
         ord_signature = ''sig''\<rparr>" by code_simp
  from closed_cancel_is_flattened_once[OF A B R E] show ?thesis
    unfolding Let_def F by blast
qed




end
